theory Spec2Isabelle
  imports Complex_Main
begin

section \<open>JavaScript values held by the form\<close>

text \<open>
  A JavaScript number is an IEEE double. The schema only compares a number with the
  constants 1 and 5, and the comparison of two finite doubles is the comparison of
  the rationals they denote, so a finite number is modelled by its rational value;
  NaN and the two infinities are separate constructors. Every double is one of the
  values of this type.
\<close>

datatype jsnumber = JNaN | JFinite rat | JPosInfinity | JNegInfinity

text \<open>
  The kinds of value that are neither \<^verbatim>\<open>undefined\<close>, \<^verbatim>\<open>null\<close>, a string, a
  number nor a boolean, as zod tells them apart when it reports the type it
  received.
\<close>

datatype other_type =
    TFunction
  | TBigint
  | TSymbol
  | TArray
  | TPromise
  | TMap
  | TSet
  | TDate
  | TObject

text \<open>
  The values a field of the draft can hold at run time. The TypeScript type of
  \<^verbatim>\<open>state\<close> is erased at run time, and \<^verbatim>\<open>setRating\<close> writes a number to any
  key, so validation meets every kind of value. Of a value \<open>JOther\<close> only its kind
  matters: the schema has no type that accepts one.
\<close>

datatype jsval =
    JUndefined
  | JNull
  | JString string
  | JNumber jsnumber
  | JBoolean bool
  | JOther other_type

text \<open>The keys of the schema of \<^verbatim>\<open>Form.vue\<close>, in the order of the object literal.\<close>

datatype field =
    uniqueId
  | schoolName
  | sex
  | nationality
  | currentStudent
  | yearOfStudy
  | nameOfStudy
  | qualityOfTeaching
  | safety
  | location
  | socialEvents
  | facilities
  | courseContent
  | housingAndAccommodation
  | internationalFocus
  | mentalHealthAndWellnessServices
  | careerServicesAndInternshipOpportunities
  | additionalComments

text \<open>
  The draft \<^verbatim>\<open>state.value\<close> is a JavaScript object: a map from its keys to values,
  where a key that was never written reads as \<^verbatim>\<open>undefined\<close>.
\<close>

type_synonym draft = "field \<Rightarrow> jsval"

section \<open>The fragment of zod used by the schema\<close>

text \<open>
  \<^verbatim>\<open>z.string().nonempty(msg)\<close> is the check \<^verbatim>\<open>{kind: "min", value: 1, message: msg}\<close>;
  \<^verbatim>\<open>z.number().min(a).max(b)\<close> carries the two inclusive checks. A check keeps the
  message that zod reports for it.
\<close>

datatype string_check = StrMin nat string

datatype number_check = NumMin rat string | NumMax rat string

datatype ztype =
    ZString "string_check list"
  | ZNumber "number_check list"
  | ZBoolean
  | ZEnum "string list"
  | ZOptional ztype

text \<open>An issue of a \<^verbatim>\<open>ZodError\<close>. Every issue raised for a key of a flat object has
  the one-element path \<^verbatim>\<open>[key]\<close>; \<open>path0\<close> is \<^verbatim>\<open>path[0]\<close>.\<close>

record issue =
  path0 :: field
  message :: string

text \<open>What a \<^verbatim>\<open>throw\<close> can carry: a \<^verbatim>\<open>ZodError\<close> with its issues, or anything else.\<close>

datatype exn = ZodError "issue list" | OtherError string

fun other_type_name :: "other_type \<Rightarrow> string" where
  "other_type_name TFunction = ''function''"
| "other_type_name TBigint = ''bigint''"
| "other_type_name TSymbol = ''symbol''"
| "other_type_name TArray = ''array''"
| "other_type_name TPromise = ''promise''"
| "other_type_name TMap = ''map''"
| "other_type_name TSet = ''set''"
| "other_type_name TDate = ''date''"
| "other_type_name TObject = ''object''"

fun parsedType :: "jsval \<Rightarrow> string" where
  "parsedType JUndefined = ''undefined''"
| "parsedType JNull = ''null''"
| "parsedType (JString s) = ''string''"
| "parsedType (JNumber JNaN) = ''nan''"
| "parsedType (JNumber (JFinite x)) = ''number''"
| "parsedType (JNumber JPosInfinity) = ''number''"
| "parsedType (JNumber JNegInfinity) = ''number''"
| "parsedType (JBoolean b) = ''boolean''"
| "parsedType (JOther k) = other_type_name k"

text \<open>The default message of an \<^verbatim>\<open>invalid_type\<close> issue.\<close>

definition invalid_type :: "string \<Rightarrow> jsval \<Rightarrow> string" where
  "invalid_type expected v =
     (if v = JUndefined then ''Required''
      else ''Expected '' @ expected @ '', received '' @ parsedType v)"

definition quoted :: "string \<Rightarrow> string" where
  "quoted s = [CHR 0x27] @ s @ [CHR 0x27]"

fun joinValues :: "string list \<Rightarrow> string" where
  "joinValues [] = []"
| "joinValues [v] = quoted v"
| "joinValues (v # vs) = quoted v @ '' | '' @ joinValues vs"

definition invalid_enum_value :: "string list \<Rightarrow> string \<Rightarrow> string" where
  "invalid_enum_value options received =
     ''Invalid enum value. Expected '' @ joinValues options @ '', received '' @ quoted received"

text \<open>
  \<^verbatim>\<open>input.data.length < check.value\<close>. JavaScript counts UTF-16 code units and
  \<open>length\<close> counts the characters of the list; the two agree on whether a string
  is empty, which is all that the check with value 1 asks.
\<close>

fun string_check_issues :: "string \<Rightarrow> string_check \<Rightarrow> string list" where
  "string_check_issues s (StrMin n msg) = (if length s < n then [msg] else [])"

text \<open>\<^verbatim>\<open>x < c\<close> and \<^verbatim>\<open>x > c\<close> for a number \<open>x\<close> that is not NaN and a finite constant.\<close>

fun js_less :: "jsnumber \<Rightarrow> rat \<Rightarrow> bool" where
  "js_less (JFinite x) c = (x < c)"
| "js_less JNegInfinity c = True"
| "js_less JPosInfinity c = False"
| "js_less JNaN c = False"

fun js_greater :: "jsnumber \<Rightarrow> rat \<Rightarrow> bool" where
  "js_greater (JFinite x) c = (c < x)"
| "js_greater JNegInfinity c = False"
| "js_greater JPosInfinity c = True"
| "js_greater JNaN c = False"

fun number_check_issues :: "jsnumber \<Rightarrow> number_check \<Rightarrow> string list" where
  "number_check_issues x (NumMin c msg) = (if js_less x c then [msg] else [])"
| "number_check_issues x (NumMax c msg) = (if js_greater x c then [msg] else [])"

text \<open>
  The messages of the issues that parsing a value with a type raises, in order. A
  value of the wrong type raises \<^verbatim>\<open>invalid_type\<close> and its checks are not run; a
  value of the right type runs every check. \<^verbatim>\<open>optional()\<close> accepts
  \<^verbatim>\<open>undefined\<close> and hands every other value to the inner type.
\<close>

fun parse_type :: "ztype \<Rightarrow> jsval \<Rightarrow> string list" where
  "parse_type (ZOptional t) v = (if v = JUndefined then [] else parse_type t v)"
| "parse_type (ZString cs) v =
     (case v of
        JString s \<Rightarrow> concat (map (string_check_issues s) cs)
      | _ \<Rightarrow> [invalid_type ''string'' v])"
| "parse_type (ZNumber cs) v =
     (case v of
        JNumber JNaN \<Rightarrow> [invalid_type ''number'' v]
      | JNumber x \<Rightarrow> concat (map (number_check_issues x) cs)
      | _ \<Rightarrow> [invalid_type ''number'' v])"
| "parse_type ZBoolean v =
     (case v of
        JBoolean b \<Rightarrow> []
      | _ \<Rightarrow> [invalid_type ''boolean'' v])"
| "parse_type (ZEnum options) v =
     (case v of
        JString s \<Rightarrow> (if s \<in> set options then [] else [invalid_enum_value options s])
      | _ \<Rightarrow> [invalid_type (joinValues options) v])"

text \<open>
  Parsing an object visits every key of the shape, in order, and collects the
  issues of all of them under the key.
\<close>

definition object_issues :: "(field \<times> ztype) list \<Rightarrow> draft \<Rightarrow> issue list" where
  "object_issues shape d =
     concat (map (\<lambda>(key, t). map (\<lambda>m. \<lparr>path0 = key, message = m\<rparr>) (parse_type t (d key))) shape)"

section \<open>Form.vue: the schema\<close>

definition rating :: ztype where
  "rating = ZOptional (ZNumber
     [NumMin 1 ''Number must be greater than or equal to 1'',
      NumMax 5 ''Number must be less than or equal to 5''])"

definition schema :: "(field \<times> ztype) list" where
  "schema =
     [(uniqueId, ZOptional (ZString [])),
      (schoolName, ZString [StrMin 1 ''School name is required'']),
      (sex, ZOptional (ZEnum [''male'', ''female'', ''prefer not to say'', ''''])),
      (nationality, ZString [StrMin 1 ''Nationality is required'']),
      (currentStudent, ZBoolean),
      (yearOfStudy, ZOptional (ZString [])),
      (nameOfStudy, ZOptional (ZString [])),
      (qualityOfTeaching, rating),
      (safety, rating),
      (location, rating),
      (socialEvents, rating),
      (facilities, rating),
      (courseContent, rating),
      (housingAndAccommodation, rating),
      (internationalFocus, rating),
      (mentalHealthAndWellnessServices, rating),
      (careerServicesAndInternshipOpportunities, rating),
      (additionalComments, ZOptional (ZString []))]"

text \<open>
  \<^verbatim>\<open>schema.parse(data)\<close> throws a \<^verbatim>\<open>ZodError\<close> with the issues when there is one,
  and returns a copy of the data otherwise (the keys of the draft are those of the
  shape, so no key is stripped).
\<close>

definition parse :: "draft \<Rightarrow> exn + draft" where
  "parse d = (let issues = object_issues schema d in
              if issues = [] then Inr d else Inl (ZodError issues))"

section \<open>Form.vue: the component\<close>

text \<open>
  The component owns the draft \<^verbatim>\<open>state\<close> and the error map \<^verbatim>\<open>errors\<close>;
  \<open>emitted\<close> records the payloads of the \<^verbatim>\<open>formSubmitted\<close> events emitted so far.
\<close>

record component =
  state :: draft
  errors :: "field \<rightharpoonup> string"
  emitted :: "draft list"

definition initial_state :: draft where
  "initial_state =
     (\<lambda>k. JUndefined)
       (uniqueId := JString '''',
        schoolName := JString '''',
        sex := JString '''',
        nationality := JString '''',
        currentStudent := JBoolean False,
        yearOfStudy := JString '''',
        nameOfStudy := JString '''',
        additionalComments := JString '''')"

definition initial_component :: component where
  "initial_component = \<lparr>state = initial_state, errors = Map.empty, emitted = []\<rparr>"

text \<open>The reducer of the \<^verbatim>\<open>catch\<close> block: \<^verbatim>\<open>acc[path] = curr.message\<close>, from \<^verbatim>\<open>{}\<close>.\<close>

definition reduce_errors :: "issue list \<Rightarrow> (field \<rightharpoonup> string)" where
  "reduce_errors errs = foldl (\<lambda>acc curr. acc(path0 curr \<mapsto> message curr)) Map.empty errs"

text \<open>
  The \<^verbatim>\<open>try\<close> block. Its first argument is what this call of \<^verbatim>\<open>uuidv4()\<close> does:
  it returns a token or it throws. The result is the component as the block left it
  and the exception that ended the block, if any.
\<close>

definition try_block :: "exn + string \<Rightarrow> component \<Rightarrow> component \<times> exn option" where
  "try_block uuid c =
     (case uuid of
        Inl e \<Rightarrow> (c, Some e)
      | Inr uniqueID \<Rightarrow>
          (let c1 = c\<lparr>state := (state c)(uniqueId := JString uniqueID)\<rparr> in
           case parse (state c1) of
             Inl e \<Rightarrow> (c1, Some e)
           | Inr validatedData \<Rightarrow> (c1\<lparr>emitted := emitted c1 @ [validatedData]\<rparr>, None)))"

text \<open>
  The \<^verbatim>\<open>catch\<close> block: a \<^verbatim>\<open>ZodError\<close> replaces the error map; any other exception
  is dropped. Neither branch throws again.
\<close>

definition catch_block :: "exn \<Rightarrow> component \<Rightarrow> component \<times> exn option" where
  "catch_block error c =
     (case error of
        ZodError errs \<Rightarrow> (c\<lparr>errors := reduce_errors errs\<rparr>, None)
      | OtherError msg \<Rightarrow> (c, None))"

text \<open>
  \<^verbatim>\<open>onSubmit\<close>: the component after the call, and the exception that leaves the
  handler towards its caller, if any. \<^verbatim>\<open>event.preventDefault()\<close> and
  \<^verbatim>\<open>console.error\<close> do not touch the component and are left out; the
  \<^verbatim>\<open>finally\<close> block is empty.
\<close>

definition onSubmit :: "exn + string \<Rightarrow> component \<Rightarrow> component \<times> exn option" where
  "onSubmit uuid c =
     (case try_block uuid c of
        (c', None) \<Rightarrow> (c', None)
      | (c', Some error) \<Rightarrow> catch_block error c')"

definition setRating :: "field \<Rightarrow> jsnumber \<Rightarrow> component \<Rightarrow> component" where
  "setRating fld v c = c\<lparr>state := (state c)(fld := JNumber v)\<rparr>"

section \<open>data-clean.ts\<close>

text \<open>
  A record of \<^verbatim>\<open>schools.json\<close>. The data file is not part of the sources, so the
  dataset is a parameter of the two functions; the keys with a space or a hyphen
  are written with an underscore.
\<close>

record school =
  INSTELLINGSNAAM :: jsval
  SOORT_HO :: jsval
  PROVINCIE :: jsval
  STRAATNAAM :: jsval
  HUISNUMMER_TOEVOEGING :: jsval
  POSTCODE :: jsval
  PLAATSNAAM :: jsval
  INTERNETADRES :: jsval
  BEVOEGD_GEZAG_NUMMER :: jsval

definition schoolNames :: "school list \<Rightarrow> jsval list" where
  "schoolNames schools = map (\<lambda>school. INSTELLINGSNAAM school) schools"

definition filteredData :: "school list \<Rightarrow> school list" where
  "filteredData schools =
     map (\<lambda>school.
        \<lparr>INSTELLINGSNAAM = INSTELLINGSNAAM school,
         SOORT_HO = SOORT_HO school,
         PROVINCIE = PROVINCIE school,
         STRAATNAAM = STRAATNAAM school,
         HUISNUMMER_TOEVOEGING = HUISNUMMER_TOEVOEGING school,
         POSTCODE = POSTCODE school,
         PLAATSNAAM = PLAATSNAAM school,
         INTERNETADRES = INTERNETADRES school,
         BEVOEGD_GEZAG_NUMMER = BEVOEGD_GEZAG_NUMMER school\<rparr>) schools"

section \<open>Sessions of the form\<close>

text \<open>
  What happens to the component between its creation and its end: a control bound
  with \<^verbatim>\<open>v-model\<close> writes a field, a star calls \<^verbatim>\<open>setRating\<close>, the form is
  submitted. \<open>uuids n\<close> is what call number \<open>n\<close> of \<^verbatim>\<open>uuidv4()\<close> does, and the
  counter is the number of calls made so far.
\<close>

datatype action = Edit field jsval | SetRating field jsnumber | Submit

fun session :: "(nat \<Rightarrow> exn + string) \<Rightarrow> nat \<Rightarrow> action list \<Rightarrow> component \<Rightarrow> component" where
  "session uuids n [] c = c"
| "session uuids n (Edit k v # acts) c =
     session uuids n acts (c\<lparr>state := (state c)(k := v)\<rparr>)"
| "session uuids n (SetRating k v # acts) c =
     session uuids n acts (setRating k v c)"
| "session uuids n (Submit # acts) c =
     session uuids (Suc n) acts (fst (onSubmit (uuids n) c))"

section \<open>Validity in the words of the specification\<close>

definition nonempty_string :: "jsval \<Rightarrow> bool" where
  "nonempty_string v = (case v of JString s \<Rightarrow> s \<noteq> [] | _ \<Rightarrow> False)"

definition is_boolean :: "jsval \<Rightarrow> bool" where
  "is_boolean v = (case v of JBoolean b \<Rightarrow> True | _ \<Rightarrow> False)"

definition optional_string :: "jsval \<Rightarrow> bool" where
  "optional_string v = (case v of JUndefined \<Rightarrow> True | JString s \<Rightarrow> True | _ \<Rightarrow> False)"

text \<open>A rating that is absent, or a number between 1 and 5.\<close>

definition rating_in_range :: "jsval \<Rightarrow> bool" where
  "rating_in_range v =
     (case v of
        JUndefined \<Rightarrow> True
      | JNumber (JFinite x) \<Rightarrow> 1 \<le> x \<and> x \<le> 5
      | _ \<Rightarrow> False)"

text \<open>A rating that is absent, or an integer between 1 and 5.\<close>

definition integer_rating :: "jsval \<Rightarrow> bool" where
  "integer_rating v =
     (case v of
        JUndefined \<Rightarrow> True
      | JNumber (JFinite x) \<Rightarrow> of_int \<lfloor>x\<rfloor> = x \<and> 1 \<le> x \<and> x \<le> 5
      | _ \<Rightarrow> False)"

definition optional_sex :: "jsval \<Rightarrow> bool" where
  "optional_sex v =
     (case v of
        JUndefined \<Rightarrow> True
      | JString s \<Rightarrow> s \<in> set [''male'', ''female'', ''prefer not to say'', '''']
      | _ \<Rightarrow> False)"

definition rating_fields :: "field list" where
  "rating_fields =
     [qualityOfTeaching, safety, location, socialEvents, facilities, courseContent,
      housingAndAccommodation, internationalFocus, mentalHealthAndWellnessServices,
      careerServicesAndInternshipOpportunities]"

definition text_fields :: "field list" where
  "text_fields = [uniqueId, yearOfStudy, nameOfStudy, additionalComments]"

text \<open>Validity as the specification states it: the required fields and integer ratings.\<close>

definition claimed_valid :: "draft \<Rightarrow> bool" where
  "claimed_valid d \<longleftrightarrow>
     nonempty_string (d schoolName) \<and> nonempty_string (d nationality) \<and>
     is_boolean (d currentStudent) \<and>
     (\<forall>k \<in> set rating_fields. integer_rating (d k))"

text \<open>Validity with every condition that the schema puts on a field.\<close>

definition valid_draft :: "draft \<Rightarrow> bool" where
  "valid_draft d \<longleftrightarrow>
     nonempty_string (d schoolName) \<and> nonempty_string (d nationality) \<and>
     is_boolean (d currentStudent) \<and>
     (\<forall>k \<in> set rating_fields. rating_in_range (d k)) \<and>
     optional_sex (d sex) \<and>
     (\<forall>k \<in> set text_fields. optional_string (d k))"

text \<open>The draft is rejected, and the error carries an issue for the key.\<close>

definition rejected_at :: "draft \<Rightarrow> field \<Rightarrow> bool" where
  "rejected_at d k =
     (case parse d of
        Inl (ZodError issues) \<Rightarrow> k \<in> path0 ` set issues
      | _ \<Rightarrow> False)"

definition whitespace_only :: "string \<Rightarrow> bool" where
  "whitespace_only s = (\<forall>c \<in> set s. c \<in> set [CHR '' '', CHR 0x09, CHR 0x0A, CHR 0x0D])"

text \<open>
  The ratings, \<open>sex\<close> and \<open>additionalComments\<close> hold values that the schema accepts.
\<close>

definition ratings_and_options_valid :: "draft \<Rightarrow> bool" where
  "ratings_and_options_valid d \<longleftrightarrow>
     (\<forall>k \<in> set rating_fields. rating_in_range (d k)) \<and>
     optional_sex (d sex) \<and> optional_string (d additionalComments)"

text \<open>
  The identifiers of the records emitted so far are different from each other, and
  each is a non-empty token that one of the first \<open>n\<close> calls of the generator
  returned.
\<close>

definition identifiers_fresh :: "(nat \<Rightarrow> exn + string) \<Rightarrow> nat \<Rightarrow> component \<Rightarrow> bool" where
  "identifiers_fresh uuids n c \<longleftrightarrow>
     distinct (map (\<lambda>r. r uniqueId) (emitted c)) \<and>
     (\<forall>r \<in> set (emitted c). \<exists>i < n. \<exists>s. s \<noteq> [] \<and> uuids i = Inr s \<and> r uniqueId = JString s)"

text \<open>The generator never returns the same token twice.\<close>

definition tokens_differ :: "(nat \<Rightarrow> exn + string) \<Rightarrow> bool" where
  "tokens_differ uuids \<longleftrightarrow> (\<forall>i j s. uuids i = Inr s \<and> uuids j = Inr s \<longrightarrow> i = j)"

text \<open>
  What \<^verbatim>\<open>uuidv4()\<close> returns when it returns: the text of a version 4 UUID, 32
  hexadecimal digits in five groups with four hyphens, 36 characters. The library
  is not part of the sources; its calls enter the model as the parameter \<open>uuids\<close>.
\<close>

definition uuid_tokens :: "(nat \<Rightarrow> exn + string) \<Rightarrow> bool" where
  "uuid_tokens uuids \<longleftrightarrow> (\<forall>i s. uuids i = Inr s \<longrightarrow> length s = 36)"

section \<open>Drafts and generators used as examples\<close>

text \<open>The initial draft with the two required fields filled in, and two variants of it.\<close>

definition acme_draft :: draft where
  "acme_draft =
     initial_state(schoolName := JString ''Acme University'', nationality := JString ''Dutch'')"

definition half_rating_draft :: draft where
  "half_rating_draft = acme_draft(qualityOfTeaching := JNumber (JFinite (5 / 2)))"

definition other_sex_draft :: draft where
  "other_sex_draft = acme_draft(sex := JString ''other'')"

text \<open>A draft whose every field is \<^verbatim>\<open>null\<close>.\<close>

definition null_draft :: draft where
  "null_draft = (\<lambda>k. JNull)"

text \<open>A submission that fails, a correction, and a submission that succeeds.\<close>

definition stale_errors_actions :: "action list" where
  "stale_errors_actions =
     [Edit nationality (JString ''Dutch''), Submit,
      Edit schoolName (JString ''Acme University''), Submit]"

text \<open>What the generator throws where no source of random numbers is available.\<close>

definition generator_fault :: exn where
  "generator_fault = OtherError ''crypto.getRandomValues() not supported''"

text \<open>A session with two successful submissions.\<close>

definition two_submissions :: "action list" where
  "two_submissions =
     [Edit schoolName (JString ''Acme University''), Edit nationality (JString ''Dutch''),
      Submit, SetRating safety (JFinite 4), Submit]"

text \<open>A dataset of three records, two of which have the same name.\<close>

definition example_schools :: "school list" where
  "example_schools =
     [\<lparr>INSTELLINGSNAAM = JString ''Hogeschool A'', SOORT_HO = JString ''hbo'',
       PROVINCIE = JString ''Utrecht'', STRAATNAAM = JString ''Straat'',
       HUISNUMMER_TOEVOEGING = JNumber (JFinite 1), POSTCODE = JString ''1000 AA'',
       PLAATSNAAM = JString ''Utrecht'', INTERNETADRES = JString ''a.example'',
       BEVOEGD_GEZAG_NUMMER = JNumber (JFinite 10)\<rparr>,
      \<lparr>INSTELLINGSNAAM = JString ''Universiteit B'', SOORT_HO = JString ''wo'',
       PROVINCIE = JString ''Groningen'', STRAATNAAM = JString ''Laan'',
       HUISNUMMER_TOEVOEGING = JNumber (JFinite 2), POSTCODE = JString ''2000 BB'',
       PLAATSNAAM = JString ''Groningen'', INTERNETADRES = JString ''b.example'',
       BEVOEGD_GEZAG_NUMMER = JNumber (JFinite 20)\<rparr>,
      \<lparr>INSTELLINGSNAAM = JString ''Hogeschool A'', SOORT_HO = JString ''hbo'',
       PROVINCIE = JString ''Zeeland'', STRAATNAAM = JString ''Weg'',
       HUISNUMMER_TOEVOEGING = JNumber (JFinite 3), POSTCODE = JString ''3000 CC'',
       PLAATSNAAM = JString ''Goes'', INTERNETADRES = JString ''c.example'',
       BEVOEGD_GEZAG_NUMMER = JNumber (JFinite 30)\<rparr>]"

text \<open>A generator with short tokens that are all different.\<close>

definition tagged_uuids :: "nat \<Rightarrow> exn + string" where
  "tagged_uuids n = Inr (''id-'' @ replicate n (CHR ''a''))"

text \<open>A generator that returns two tokens of \<^verbatim>\<open>uuidv4\<close> and then fails.\<close>

definition v4_uuids :: "nat \<Rightarrow> exn + string" where
  "v4_uuids n =
     (case n of
        0 \<Rightarrow> Inr ''1b9d6bcd-bbfd-4b2d-9b5d-ab8dfbbd4bed''
      | Suc 0 \<Rightarrow> Inr ''9b1deb4d-3b7d-4bad-9bdd-2b0d7b3dcb6d''
      | _ \<Rightarrow> Inl generator_fault)"

text \<open>The initial component with two ratings out of range.\<close>

definition out_of_range_component :: component where
  "out_of_range_component =
     \<lparr>state = initial_state(safety := JNumber (JFinite 7), location := JNumber (JFinite 0)),
      errors = Map.empty, emitted = []\<rparr>"

section \<open>What the schema accepts\<close>

lemma string_required_iff:
  "parse_type (ZString [StrMin 1 msg]) v = [] \<longleftrightarrow> nonempty_string v"
  by (cases v) (simp_all add: nonempty_string_def)

lemma boolean_iff: "parse_type ZBoolean v = [] \<longleftrightarrow> is_boolean v"
  by (cases v) (simp_all add: is_boolean_def)

lemma optional_string_iff: "parse_type (ZOptional (ZString [])) v = [] \<longleftrightarrow> optional_string v"
  by (cases v) (simp_all add: optional_string_def)

lemma rating_iff: "parse_type rating v = [] \<longleftrightarrow> rating_in_range v"
proof (cases v)
  case (JNumber x)
  then show ?thesis
    by (cases x) (auto simp: rating_def rating_in_range_def)
qed (simp_all add: rating_def rating_in_range_def)

lemma optional_sex_iff:
  "parse_type (ZOptional (ZEnum [''male'', ''female'', ''prefer not to say'', ''''])) v = []
     \<longleftrightarrow> optional_sex v"
  by (cases v) (simp_all add: optional_sex_def)

lemma object_issues_Nil_iff:
  "object_issues shape d = [] \<longleftrightarrow> (\<forall>(k, t) \<in> set shape. parse_type t (d k) = [])"
  by (auto simp: object_issues_def)

lemma object_issues_Cons:
  "object_issues ((k, t) # shape) d =
     map (\<lambda>m. \<lparr>path0 = k, message = m\<rparr>) (parse_type t (d k)) @ object_issues shape d"
  by (simp add: object_issues_def)

lemma paths_key_issues:
  "path0 ` set (map (\<lambda>m. \<lparr>path0 = k, message = m\<rparr>) ms) = (if ms = [] then {} else {k})"
  by (cases ms) auto

lemma paths_object_issues:
  "path0 ` set (object_issues shape d) = {k. \<exists>t. (k, t) \<in> set shape \<and> parse_type t (d k) \<noteq> []}"
proof (induction shape)
  case Nil
  then show ?case by (simp add: object_issues_def)
next
  case (Cons a shape)
  obtain k t where a: "a = (k, t)" by (cases a)
  have "path0 ` set (object_issues (a # shape) d) =
      (if parse_type t (d k) = [] then {} else {k}) \<union> path0 ` set (object_issues shape d)"
    unfolding a object_issues_Cons set_append image_Un paths_key_issues ..
  with Cons.IH show ?case
    by (auto simp: a)
qed

lemma schema_accepts_iff: "object_issues schema d = [] \<longleftrightarrow> valid_draft d"
  unfolding object_issues_Nil_iff
  by (simp add: schema_def valid_draft_def rating_fields_def text_fields_def
      string_required_iff boolean_iff optional_string_iff rating_iff optional_sex_iff
      del: parse_type.simps One_nat_def)
     blast

lemma parse_accepts_iff: "parse d = Inr d \<longleftrightarrow> valid_draft d"
  by (simp add: parse_def Let_def schema_accepts_iff)

lemma rejected_at_iff:
  "rejected_at d k \<longleftrightarrow> (\<exists>t. (k, t) \<in> set schema \<and> parse_type t (d k) \<noteq> [])"
proof -
  have "rejected_at d k \<longleftrightarrow> k \<in> path0 ` set (object_issues schema d)"
    by (auto simp: rejected_at_def parse_def Let_def)
  then show ?thesis
    unfolding paths_object_issues by simp
qed

lemma valid_acme_draft: "valid_draft acme_draft"
  by (simp add: valid_draft_def acme_draft_def initial_state_def rating_fields_def
      text_fields_def nonempty_string_def is_boolean_def rating_in_range_def optional_sex_def
      optional_string_def)

section \<open>Full-schema validation\<close>

text \<open>
  C1, as the code has it. The schema accepts a draft exactly when \<open>schoolName\<close> and
  \<open>nationality\<close> are non-empty strings, \<open>currentStudent\<close> is a boolean, every
  rating that is present is a number between 1 and 5 (an integer or not), \<open>sex\<close>
  is absent or one of the four values of the enumeration, and \<open>uniqueId\<close>,
  \<open>yearOfStudy\<close>, \<open>nameOfStudy\<close> and \<open>additionalComments\<close> are absent or
  strings. A draft that violates one of these conditions is rejected with an issue
  for the field that violates it.
\<close>

theorem schema_accepts_iff_valid:
  "(parse d = Inr d \<longleftrightarrow> valid_draft d) \<and>
   (\<not> nonempty_string (d schoolName) \<longrightarrow> rejected_at d schoolName) \<and>
   (\<not> nonempty_string (d nationality) \<longrightarrow> rejected_at d nationality) \<and>
   (\<not> is_boolean (d currentStudent) \<longrightarrow> rejected_at d currentStudent) \<and>
   (\<forall>k \<in> set rating_fields. \<not> rating_in_range (d k) \<longrightarrow> rejected_at d k) \<and>
   (\<not> optional_sex (d sex) \<longrightarrow> rejected_at d sex) \<and>
   (\<forall>k \<in> set text_fields. \<not> optional_string (d k) \<longrightarrow> rejected_at d k)"
proof -
  have required: "\<not> nonempty_string (d k) \<Longrightarrow> (k, ZString [StrMin 1 msg]) \<in> set schema
      \<Longrightarrow> rejected_at d k" for k msg
    unfolding rejected_at_iff using string_required_iff by blast
  have boolean: "\<not> is_boolean (d currentStudent) \<Longrightarrow> rejected_at d currentStudent"
    unfolding rejected_at_iff using boolean_iff [of "d currentStudent"]
    by (intro exI [of _ ZBoolean]) (simp add: schema_def)
  have ratings: "\<not> rating_in_range (d k) \<Longrightarrow> k \<in> set rating_fields \<Longrightarrow> rejected_at d k" for k
    unfolding rejected_at_iff using rating_iff [of "d k"]
    by (intro exI [of _ rating]) (auto simp: schema_def rating_fields_def)
  have sexes: "\<not> optional_sex (d sex) \<Longrightarrow> rejected_at d sex"
    unfolding rejected_at_iff using optional_sex_iff [of "d sex"]
    by (intro exI [of _ "ZOptional (ZEnum [''male'', ''female'', ''prefer not to say'', ''''])"])
       (simp add: schema_def)
  have texts: "\<not> optional_string (d k) \<Longrightarrow> k \<in> set text_fields \<Longrightarrow> rejected_at d k" for k
    unfolding rejected_at_iff using optional_string_iff [of "d k"]
    by (intro exI [of _ "ZOptional (ZString [])"]) (auto simp: schema_def text_fields_def)
  have "\<not> nonempty_string (d schoolName) \<Longrightarrow> rejected_at d schoolName"
    by (rule required [of _ "''School name is required''"]) (simp_all add: schema_def)
  moreover have "\<not> nonempty_string (d nationality) \<Longrightarrow> rejected_at d nationality"
    by (rule required [of _ "''Nationality is required''"]) (simp_all add: schema_def)
  ultimately show ?thesis
    using parse_accepts_iff boolean ratings sexes texts by blast
qed

theorem schema_accepts_iff_valid_witness:
  "valid_draft acme_draft \<and> parse acme_draft = Inr acme_draft \<and>
   \<not> nonempty_string (null_draft schoolName) \<and> rejected_at null_draft schoolName \<and>
   \<not> nonempty_string (null_draft nationality) \<and> rejected_at null_draft nationality \<and>
   \<not> is_boolean (null_draft currentStudent) \<and> rejected_at null_draft currentStudent \<and>
   safety \<in> set rating_fields \<and>
   \<not> rating_in_range (null_draft safety) \<and> rejected_at null_draft safety \<and>
   \<not> optional_sex (null_draft sex) \<and> rejected_at null_draft sex \<and>
   yearOfStudy \<in> set text_fields \<and>
   \<not> optional_string (null_draft yearOfStudy) \<and> rejected_at null_draft yearOfStudy"
proof -
  have "\<not> nonempty_string (null_draft k)" "\<not> is_boolean (null_draft k)"
    "\<not> rating_in_range (null_draft k)" "\<not> optional_sex (null_draft k)"
    "\<not> optional_string (null_draft k)" for k
    by (simp_all add: null_draft_def nonempty_string_def is_boolean_def rating_in_range_def
        optional_sex_def optional_string_def)
  then show ?thesis
    using valid_acme_draft schema_accepts_iff_valid [of acme_draft]
      schema_accepts_iff_valid [of null_draft]
    by (simp add: rating_fields_def text_fields_def)
qed

text \<open>
  C1, as the specification states it, fails in both directions: a draft whose
  \<open>qualityOfTeaching\<close> is 2.5 is accepted although the rating is no integer, and a
  draft that meets every stated condition but whose \<open>sex\<close> is \<^verbatim>\<open>"other"\<close> is
  rejected.
\<close>

theorem integer_rating_counterexample:
  "(parse half_rating_draft = Inr half_rating_draft \<and> \<not> claimed_valid half_rating_draft) \<and>
   (claimed_valid other_sex_draft \<and> parse other_sex_draft \<noteq> Inr other_sex_draft)"
proof -
  have "\<lfloor>5 / 2 :: rat\<rfloor> = 2"
    by (simp add: floor_eq_iff)
  then have "\<not> integer_rating (half_rating_draft qualityOfTeaching)"
    by (simp add: half_rating_draft_def integer_rating_def)
  then have 1: "\<not> claimed_valid half_rating_draft"
    by (simp add: claimed_valid_def rating_fields_def)
  have 2: "valid_draft half_rating_draft"
    by (simp add: valid_draft_def half_rating_draft_def acme_draft_def initial_state_def
        rating_fields_def text_fields_def nonempty_string_def is_boolean_def rating_in_range_def
        optional_sex_def optional_string_def)
  have 3: "claimed_valid other_sex_draft"
    by (simp add: claimed_valid_def other_sex_draft_def acme_draft_def initial_state_def
        rating_fields_def nonempty_string_def is_boolean_def integer_rating_def)
  have "\<not> optional_sex (other_sex_draft sex)"
    by (simp add: other_sex_draft_def optional_sex_def)
  then have 4: "\<not> valid_draft other_sex_draft"
    by (simp add: valid_draft_def)
  from 1 2 3 4 show ?thesis
    by (simp add: parse_accepts_iff)
qed

section \<open>The submit handler\<close>

lemma parse_cases:
  obtains (accepted) "parse d = Inr d" "object_issues schema d = []"
  | (rejected) "parse d = Inl (ZodError (object_issues schema d))" "object_issues schema d \<noteq> []"
  by (cases "object_issues schema d = []") (simp_all add: parse_def Let_def)

lemma parse_Inl:
  "parse d = Inl e \<Longrightarrow> e = ZodError (object_issues schema d) \<and> object_issues schema d \<noteq> []"
  by (cases d rule: parse_cases) simp_all

lemma parse_Inr: "parse d = Inr v \<Longrightarrow> v = d \<and> object_issues schema d = []"
  by (cases d rule: parse_cases) simp_all

lemma onSubmit_accepted:
  assumes "parse ((state c)(uniqueId := JString token)) = Inr v"
  shows "onSubmit (Inr token) c =
     (c\<lparr>state := (state c)(uniqueId := JString token), emitted := emitted c @ [v]\<rparr>, None)"
  using assms by (simp add: onSubmit_def try_block_def Let_def)

lemma onSubmit_rejected:
  assumes "parse ((state c)(uniqueId := JString token)) = Inl (ZodError issues)"
  shows "onSubmit (Inr token) c =
     (c\<lparr>state := (state c)(uniqueId := JString token), errors := reduce_errors issues\<rparr>, None)"
  using assms by (simp add: onSubmit_def try_block_def catch_block_def Let_def)

lemma onSubmit_generator_throws: "onSubmit (Inl (OtherError msg)) c = (c, None)"
  by (simp add: onSubmit_def try_block_def catch_block_def)

lemma reduce_errors_Nil: "reduce_errors [] = Map.empty"
  by (simp add: reduce_errors_def)

lemma reduce_errors_snoc:
  "reduce_errors (errs @ [e]) = (reduce_errors errs)(path0 e \<mapsto> message e)"
  by (simp add: reduce_errors_def)

lemma reduce_errors_rev:
  "reduce_errors errs = map_of (rev (map (\<lambda>i. (path0 i, message i)) errs))"
  by (induction errs rule: rev_induct) (simp_all add: reduce_errors_snoc reduce_errors_Nil)

lemma dom_reduce_errors: "dom (reduce_errors errs) = path0 ` set errs"
  by (induction errs rule: rev_induct)
     (simp_all add: reduce_errors_snoc reduce_errors_Nil del: fun_upd_apply)

lemma map_of_rev_distinct:
  assumes "distinct (map fst xs)"
  shows "map_of (rev xs) = map_of xs"
proof -
  have "distinct (map fst (rev xs))"
    using assms by (simp add: rev_map [symmetric])
  then show ?thesis
    using assms by (simp add: map_of_inject_set)
qed

lemma parse_type_at_most_one:
  assumes "(k, t) \<in> set schema"
  shows "length (parse_type t v) \<le> 1"
proof -
  have r: "length (parse_type rating v) \<le> 1"
  proof (cases v)
    case (JNumber x)
    then show ?thesis by (cases x) (simp_all add: rating_def)
  qed (simp_all add: rating_def)
  have s: "length (parse_type (ZString [StrMin 1 msg]) v) \<le> 1" for msg
    by (cases v) simp_all
  have o: "length (parse_type (ZOptional (ZString [])) v) \<le> 1"
    by (cases v) simp_all
  have b: "length (parse_type ZBoolean v) \<le> 1"
    by (cases v) simp_all
  have e: "length (parse_type (ZOptional (ZEnum options)) v) \<le> 1" for options
    by (cases v) simp_all
  from assms r s o b e show ?thesis
    by (auto simp: schema_def simp del: parse_type.simps One_nat_def)
qed

lemma distinct_paths_object_issues:
  assumes "distinct (map fst shape)"
    and "\<And>k t. (k, t) \<in> set shape \<Longrightarrow> length (parse_type t (d k)) \<le> 1"
  shows "distinct (map path0 (object_issues shape d))"
  using assms
proof (induction shape)
  case Nil
  then show ?case by (simp add: object_issues_def)
next
  case (Cons a shape)
  obtain k t where a: "a = (k, t)" by (cases a)
  have len: "length (parse_type t (d k)) \<le> 1"
    using Cons.prems(2) [of k t] by (simp add: a)
  have here: "map path0 (map (\<lambda>m. \<lparr>path0 = k, message = m\<rparr>) (parse_type t (d k)))
      = replicate (length (parse_type t (d k))) k"
    by (simp add: map_replicate_const comp_def)
  have d1: "distinct (replicate (length (parse_type t (d k))) k)"
    using len by (cases "parse_type t (d k)") simp_all
  have rest: "distinct (map path0 (object_issues shape d))"
    using Cons by simp
  have "path0 ` set (object_issues shape d) \<subseteq> fst ` set shape"
    unfolding paths_object_issues by force
  moreover have "k \<notin> fst ` set shape"
    using Cons.prems(1) by (simp add: a)
  ultimately have "k \<notin> path0 ` set (object_issues shape d)"
    by blast
  then have disj: "set (replicate (length (parse_type t (d k))) k)
      \<inter> set (map path0 (object_issues shape d)) = {}"
    by (auto simp: set_replicate_conv_if)
  show ?case
    unfolding a object_issues_Cons map_append here distinct_append
    using d1 rest disj by simp
qed

lemma distinct_schema_keys: "distinct (map fst schema)"
  by (simp add: schema_def)

lemma distinct_paths_schema: "distinct (map path0 (object_issues schema d))"
  by (rule distinct_paths_object_issues [OF distinct_schema_keys]) (rule parse_type_at_most_one)

lemma issue_in_object_issues:
  assumes "(k, t) \<in> set shape" and "m \<in> set (parse_type t (d k))"
  shows "\<lparr>path0 = k, message = m\<rparr> \<in> set (object_issues shape d)"
  using assms by (induction shape) (auto simp: object_issues_def)

lemma reduce_errors_schema:
  assumes "(k, t) \<in> set schema" and "parse_type t (d k) = [m]"
  shows "reduce_errors (object_issues schema d) k = Some m"
proof -
  let ?al = "map (\<lambda>i. (path0 i, message i)) (object_issues schema d)"
  have d: "distinct (map fst ?al)"
    using distinct_paths_schema [of d] by (simp add: comp_def)
  have "\<lparr>path0 = k, message = m\<rparr> \<in> set (object_issues schema d)"
    using assms by (intro issue_in_object_issues [of k t]) simp_all
  then have "(k, m) \<in> set ?al"
    by force
  with d have "map_of ?al k = Some m"
    by (rule map_of_is_SomeI)
  with d show ?thesis
    by (simp add: reduce_errors_rev map_of_rev_distinct)
qed

section \<open>A submission that fails validation\<close>

text \<open>
  C2. When the draft, with its new identifier, fails validation, \<open>onSubmit\<close> emits
  no \<open>formSubmitted\<close> event and every field of the draft other than \<open>uniqueId\<close>
  keeps the value it had when the handler was called.
\<close>

theorem failed_submit_keeps_draft:
  assumes "parse ((state c)(uniqueId := JString token)) = Inl e"
  shows "emitted (fst (onSubmit (Inr token) c)) = emitted c \<and>
         (\<forall>k. k \<noteq> uniqueId \<longrightarrow> state (fst (onSubmit (Inr token) c)) k = state c k)"
proof -
  from assms have "e = ZodError (object_issues schema ((state c)(uniqueId := JString token)))"
    by (simp add: parse_Inl)
  with assms show ?thesis
    by (simp add: onSubmit_rejected)
qed

theorem failed_submit_keeps_draft_witness:
  "parse ((state initial_component)(uniqueId := JString ''id-0'')) =
     Inl (ZodError [\<lparr>path0 = schoolName, message = ''School name is required''\<rparr>,
                    \<lparr>path0 = nationality, message = ''Nationality is required''\<rparr>]) \<and>
   emitted (fst (onSubmit (Inr ''id-0'') initial_component)) = [] \<and>
   schoolName \<noteq> uniqueId \<and>
   state (fst (onSubmit (Inr ''id-0'') initial_component)) schoolName = JString [] \<and>
   state (fst (onSubmit (Inr ''id-0'') initial_component)) currentStudent = JBoolean False"
proof -
  have p: "parse ((state initial_component)(uniqueId := JString ''id-0'')) =
     Inl (ZodError [\<lparr>path0 = schoolName, message = ''School name is required''\<rparr>,
                    \<lparr>path0 = nationality, message = ''Nationality is required''\<rparr>])"
    by (simp add: parse_def object_issues_def schema_def rating_def initial_component_def
        initial_state_def)
  show ?thesis
    using p failed_submit_keeps_draft [OF p]
    by (simp add: initial_component_def initial_state_def)
qed

text \<open>
  C4. When a failing submission rebuilds the error map, the map gives each failing
  field one message, the message of the first issue that the error lists for the
  field. The reducer itself keeps the last message written for a key; the two agree
  because the schema raises at most one issue for a field, so the issues of an
  error have different keys.
\<close>

theorem error_map_first_message:
  assumes "parse ((state c)(uniqueId := JString token)) = Inl (ZodError issues)"
  shows "errors (fst (onSubmit (Inr token) c)) = map_of (map (\<lambda>i. (path0 i, message i)) issues) \<and>
         distinct (map path0 issues)"
proof -
  from assms have issues: "issues = object_issues schema ((state c)(uniqueId := JString token))"
    using parse_Inl by blast
  then have d: "distinct (map path0 issues)"
    by (simp add: distinct_paths_schema)
  then have "distinct (map fst (map (\<lambda>i. (path0 i, message i)) issues))"
    by (simp add: comp_def)
  then have "reduce_errors issues = map_of (map (\<lambda>i. (path0 i, message i)) issues)"
    unfolding reduce_errors_rev by (rule map_of_rev_distinct)
  with assms d show ?thesis
    by (simp add: onSubmit_rejected)
qed

theorem error_map_first_message_witness:
  "parse ((state initial_component)(uniqueId := JString ''id-0'')) =
     Inl (ZodError [\<lparr>path0 = schoolName, message = ''School name is required''\<rparr>,
                    \<lparr>path0 = nationality, message = ''Nationality is required''\<rparr>]) \<and>
   errors (fst (onSubmit (Inr ''id-0'') initial_component)) schoolName =
     Some ''School name is required'' \<and>
   errors (fst (onSubmit (Inr ''id-0'') initial_component)) nationality =
     Some ''Nationality is required'' \<and>
   errors (fst (onSubmit (Inr ''id-0'') initial_component)) sex = None"
proof -
  have p: "parse ((state initial_component)(uniqueId := JString ''id-0'')) =
     Inl (ZodError [\<lparr>path0 = schoolName, message = ''School name is required''\<rparr>,
                    \<lparr>path0 = nationality, message = ''Nationality is required''\<rparr>])"
    by (simp add: parse_def object_issues_def schema_def rating_def initial_component_def
        initial_state_def)
  show ?thesis
    using p error_map_first_message [OF p] by simp
qed

text \<open>The reducer on its own: a later issue for a key overwrites an earlier one.\<close>

lemma reduce_errors_last_wins:
  "reduce_errors [\<lparr>path0 = k, message = m1\<rparr>, \<lparr>path0 = k, message = m2\<rparr>] k = Some m2"
  by (simp add: reduce_errors_def)

lemma violation_rejected:
  shows "\<not> nonempty_string (d schoolName) \<Longrightarrow> rejected_at d schoolName"
    and "\<not> nonempty_string (d nationality) \<Longrightarrow> rejected_at d nationality"
    and "\<not> is_boolean (d currentStudent) \<Longrightarrow> rejected_at d currentStudent"
    and "k \<in> set rating_fields \<Longrightarrow> \<not> rating_in_range (d k) \<Longrightarrow> rejected_at d k"
    and "\<not> optional_sex (d sex) \<Longrightarrow> rejected_at d sex"
    and "k \<in> set text_fields \<Longrightarrow> \<not> optional_string (d k) \<Longrightarrow> rejected_at d k"
proof -
  have issue: "rejected_at d k" if "(k, t) \<in> set schema" "parse_type t (d k) \<noteq> []" for k t
    unfolding rejected_at_iff using that by blast
  show "\<not> nonempty_string (d schoolName) \<Longrightarrow> rejected_at d schoolName"
    by (rule issue [of _ "ZString [StrMin 1 ''School name is required'']"])
       (simp_all add: schema_def string_required_iff del: parse_type.simps One_nat_def)
  show "\<not> nonempty_string (d nationality) \<Longrightarrow> rejected_at d nationality"
    by (rule issue [of _ "ZString [StrMin 1 ''Nationality is required'']"])
       (simp_all add: schema_def string_required_iff del: parse_type.simps One_nat_def)
  show "\<not> is_boolean (d currentStudent) \<Longrightarrow> rejected_at d currentStudent"
    by (rule issue [of _ ZBoolean]) (simp_all add: schema_def boolean_iff del: parse_type.simps)
  show "k \<in> set rating_fields \<Longrightarrow> \<not> rating_in_range (d k) \<Longrightarrow> rejected_at d k"
    by (rule issue [of _ rating])
       (auto simp: schema_def rating_fields_def rating_iff simp del: parse_type.simps)
  show "\<not> optional_sex (d sex) \<Longrightarrow> rejected_at d sex"
    by (rule issue [of _ "ZOptional (ZEnum [''male'', ''female'', ''prefer not to say'', []])"])
       (simp_all add: schema_def optional_sex_iff del: parse_type.simps)
  show "k \<in> set text_fields \<Longrightarrow> \<not> optional_string (d k) \<Longrightarrow> rejected_at d k"
    by (rule issue [of _ "ZOptional (ZString [])"])
       (auto simp: schema_def text_fields_def optional_string_iff simp del: parse_type.simps)
qed

lemma rejected_reported:
  assumes "rejected_at ((state c)(uniqueId := JString token)) k"
  shows "errors (fst (onSubmit (Inr token) c)) k \<noteq> None"
proof -
  let ?d = "(state c)(uniqueId := JString token)"
  from assms have k: "k \<in> path0 ` set (object_issues schema ?d)"
    by (cases ?d rule: parse_cases) (simp_all add: rejected_at_def)
  then have "object_issues schema ?d \<noteq> []"
    by auto
  then have "parse ?d = Inl (ZodError (object_issues schema ?d))"
    by (simp add: parse_def Let_def)
  then have "errors (fst (onSubmit (Inr token) c)) = reduce_errors (object_issues schema ?d)"
    by (simp add: onSubmit_rejected)
  with k show ?thesis
    using dom_reduce_errors [of "object_issues schema ?d"] by auto
qed

text \<open>
  C6. Validation does not stop at the first failure. After a submission the error
  map has an entry for every field that violates its predicate: a required string
  that is not a non-empty string, a \<open>currentStudent\<close> that is no boolean, a
  rating that is present and not a number between 1 and 5, a \<open>sex\<close> outside the
  enumeration, an optional text that is present and no string. (The identifier is
  left out: the handler has just overwritten it with a string.) When \<open>schoolName\<close>
  and \<open>nationality\<close> are both empty, both have their entry, with their messages.
\<close>

theorem all_failing_fields_reported:
  "(\<not> nonempty_string (state c schoolName) \<longrightarrow>
      errors (fst (onSubmit (Inr token) c)) schoolName \<noteq> None) \<and>
   (\<not> nonempty_string (state c nationality) \<longrightarrow>
      errors (fst (onSubmit (Inr token) c)) nationality \<noteq> None) \<and>
   (\<not> is_boolean (state c currentStudent) \<longrightarrow>
      errors (fst (onSubmit (Inr token) c)) currentStudent \<noteq> None) \<and>
   (\<forall>k \<in> set rating_fields. \<not> rating_in_range (state c k) \<longrightarrow>
      errors (fst (onSubmit (Inr token) c)) k \<noteq> None) \<and>
   (\<not> optional_sex (state c sex) \<longrightarrow>
      errors (fst (onSubmit (Inr token) c)) sex \<noteq> None) \<and>
   (\<forall>k \<in> set text_fields. k \<noteq> uniqueId \<and> \<not> optional_string (state c k) \<longrightarrow>
      errors (fst (onSubmit (Inr token) c)) k \<noteq> None) \<and>
   (state c schoolName = JString [] \<and> state c nationality = JString [] \<longrightarrow>
      errors (fst (onSubmit (Inr token) c)) schoolName = Some ''School name is required'' \<and>
      errors (fst (onSubmit (Inr token) c)) nationality = Some ''Nationality is required'')"
proof -
  let ?d = "(state c)(uniqueId := JString token)"
  let ?c' = "fst (onSubmit (Inr token) c)"
  have school: "errors ?c' schoolName \<noteq> None" if "\<not> nonempty_string (state c schoolName)"
    using that violation_rejected(1) [of ?d] by (intro rejected_reported) simp
  have nation: "errors ?c' nationality \<noteq> None" if "\<not> nonempty_string (state c nationality)"
    using that violation_rejected(2) [of ?d] by (intro rejected_reported) simp
  have student: "errors ?c' currentStudent \<noteq> None" if "\<not> is_boolean (state c currentStudent)"
    using that violation_rejected(3) [of ?d] by (intro rejected_reported) simp
  have ratings: "errors ?c' k \<noteq> None"
    if "k \<in> set rating_fields" "\<not> rating_in_range (state c k)" for k
  proof -
    from that(1) have "k \<noteq> uniqueId"
      by (auto simp: rating_fields_def)
    with that have "\<not> rating_in_range (?d k)"
      by simp
    with that(1) have "rejected_at ?d k"
      by (rule violation_rejected(4))
    then show ?thesis
      by (rule rejected_reported)
  qed
  have sexes: "errors ?c' sex \<noteq> None" if "\<not> optional_sex (state c sex)"
    using that violation_rejected(5) [of ?d] by (intro rejected_reported) simp
  have texts: "errors ?c' k \<noteq> None"
    if "k \<in> set text_fields" "k \<noteq> uniqueId" "\<not> optional_string (state c k)" for k
  proof -
    from that have "\<not> optional_string (?d k)"
      by simp
    with that(1) have "rejected_at ?d k"
      by (rule violation_rejected(6))
    then show ?thesis
      by (rule rejected_reported)
  qed
  have both: "errors ?c' schoolName = Some ''School name is required'' \<and>
      errors ?c' nationality = Some ''Nationality is required''"
    if empty: "state c schoolName = JString []" "state c nationality = JString []"
  proof -
    have s: "reduce_errors (object_issues schema ?d) schoolName = Some ''School name is required''"
      by (rule reduce_errors_schema [where t = "ZString [StrMin 1 ''School name is required'']"])
         (simp_all add: schema_def empty)
    have n: "reduce_errors (object_issues schema ?d) nationality = Some ''Nationality is required''"
      by (rule reduce_errors_schema [where t = "ZString [StrMin 1 ''Nationality is required'']"])
         (simp_all add: schema_def empty)
    from s have "object_issues schema ?d \<noteq> []"
      by (auto simp: reduce_errors_Nil)
    then have "parse ?d = Inl (ZodError (object_issues schema ?d))"
      by (simp add: parse_def Let_def)
    with s n show ?thesis
      by (simp add: onSubmit_rejected)
  qed
  from school nation student ratings sexes texts both show ?thesis
    by blast
qed

lemma out_of_range_errors:
  "errors (fst (onSubmit (Inr ''id-0'') out_of_range_component)) safety =
     Some ''Number must be less than or equal to 5''"
  "errors (fst (onSubmit (Inr ''id-0'') out_of_range_component)) location =
     Some ''Number must be greater than or equal to 1''"
proof -
  let ?d = "(state out_of_range_component)(uniqueId := JString ''id-0'')"
  have s: "reduce_errors (object_issues schema ?d) safety =
      Some ''Number must be less than or equal to 5''"
    by (rule reduce_errors_schema [where t = rating])
       (simp_all add: schema_def rating_def out_of_range_component_def)
  have l: "reduce_errors (object_issues schema ?d) location =
      Some ''Number must be greater than or equal to 1''"
    by (rule reduce_errors_schema [where t = rating])
       (simp_all add: schema_def rating_def out_of_range_component_def)
  from s have "object_issues schema ?d \<noteq> []"
    by (auto simp: reduce_errors_Nil)
  then have p: "parse ?d = Inl (ZodError (object_issues schema ?d))"
    by (simp add: parse_def Let_def)
  show "errors (fst (onSubmit (Inr ''id-0'') out_of_range_component)) safety =
     Some ''Number must be less than or equal to 5''"
    using s p by (simp add: onSubmit_rejected)
  show "errors (fst (onSubmit (Inr ''id-0'') out_of_range_component)) location =
     Some ''Number must be greater than or equal to 1''"
    using l p by (simp add: onSubmit_rejected)
qed

theorem all_failing_fields_reported_witness:
  "\<not> nonempty_string (state out_of_range_component schoolName) \<and>
   \<not> nonempty_string (state out_of_range_component nationality) \<and>
   safety \<in> set rating_fields \<and> \<not> rating_in_range (state out_of_range_component safety) \<and>
   location \<in> set rating_fields \<and> \<not> rating_in_range (state out_of_range_component location) \<and>
   state out_of_range_component schoolName = JString [] \<and>
   state out_of_range_component nationality = JString [] \<and>
   errors (fst (onSubmit (Inr ''id-0'') out_of_range_component)) schoolName =
     Some ''School name is required'' \<and>
   errors (fst (onSubmit (Inr ''id-0'') out_of_range_component)) nationality =
     Some ''Nationality is required'' \<and>
   errors (fst (onSubmit (Inr ''id-0'') out_of_range_component)) safety =
     Some ''Number must be less than or equal to 5'' \<and>
   errors (fst (onSubmit (Inr ''id-0'') out_of_range_component)) location =
     Some ''Number must be greater than or equal to 1'' \<and>
   errors (fst (onSubmit (Inr ''id-0'') out_of_range_component)) sex = None"
proof -
  have hyps: "\<not> nonempty_string (state out_of_range_component schoolName)"
    "\<not> nonempty_string (state out_of_range_component nationality)"
    "safety \<in> set rating_fields" "\<not> rating_in_range (state out_of_range_component safety)"
    "location \<in> set rating_fields" "\<not> rating_in_range (state out_of_range_component location)"
    "state out_of_range_component schoolName = JString []"
    "state out_of_range_component nationality = JString []"
    by (simp_all add: out_of_range_component_def initial_state_def nonempty_string_def
        rating_fields_def rating_in_range_def)
  have "optional_sex (state out_of_range_component sex)"
    by (simp add: out_of_range_component_def initial_state_def optional_sex_def)
  then have "\<not> rejected_at ((state out_of_range_component)(uniqueId := JString ''id-0'')) sex"
    unfolding rejected_at_iff
    by (auto simp: schema_def optional_sex_iff simp del: parse_type.simps)
  then have "sex \<notin> path0 ` set (object_issues schema
      ((state out_of_range_component)(uniqueId := JString ''id-0'')))"
    by (cases "(state out_of_range_component)(uniqueId := JString ''id-0'')" rule: parse_cases)
       (simp_all add: rejected_at_def)
  then have nosex: "reduce_errors (object_issues schema
      ((state out_of_range_component)(uniqueId := JString ''id-0''))) sex = None"
    using dom_reduce_errors [of "object_issues schema
      ((state out_of_range_component)(uniqueId := JString ''id-0''))"] by blast
  have "errors (fst (onSubmit (Inr ''id-0'') out_of_range_component)) schoolName \<noteq> None"
    using all_failing_fields_reported [of out_of_range_component "''id-0''"] hyps by blast
  then have "object_issues schema ((state out_of_range_component)(uniqueId := JString ''id-0'')) \<noteq> []"
    by (cases "(state out_of_range_component)(uniqueId := JString ''id-0'')" rule: parse_cases)
       (auto simp: onSubmit_accepted out_of_range_component_def)
  then have "parse ((state out_of_range_component)(uniqueId := JString ''id-0'')) =
      Inl (ZodError (object_issues schema ((state out_of_range_component)(uniqueId := JString ''id-0''))))"
    by (simp add: parse_def Let_def)
  with nosex have "errors (fst (onSubmit (Inr ''id-0'') out_of_range_component)) sex = None"
    by (simp add: onSubmit_rejected)
  with hyps out_of_range_errors show ?thesis
    using all_failing_fields_reported [of out_of_range_component "''id-0''"] by simp
qed

section \<open>A fault of the identifier generator\<close>

text \<open>
  C7, as the code has it. The call of the generator is inside the \<^verbatim>\<open>try\<close> block
  and the \<^verbatim>\<open>catch\<close> block handles a \<^verbatim>\<open>ZodError\<close> only, without throwing
  anything else again: when the generator throws, \<open>onSubmit\<close> returns normally,
  nothing reaches the caller, no event is emitted, and the draft and the error map
  are as they were.
\<close>

theorem generator_fault_is_swallowed:
  "onSubmit (Inl (OtherError msg)) c = (c, None)"
  by (simp add: onSubmit_def try_block_def catch_block_def)

text \<open>
  C7, as the specification states it, fails: the fault of the generator does not
  leave the handler.
\<close>

theorem generator_fault_counterexample:
  "snd (onSubmit (Inl generator_fault) initial_component) \<noteq> Some generator_fault \<and>
   snd (onSubmit (Inl generator_fault) initial_component) = None"
  by (simp add: onSubmit_def try_block_def catch_block_def generator_fault_def)

section \<open>The error map after a successful submission\<close>

lemma onSubmit_accepted_keeps_errors:
  assumes "parse ((state c)(uniqueId := JString token)) = Inr v"
  shows "errors (fst (onSubmit (Inr token) c)) = errors c"
  using assms by (simp add: onSubmit_accepted)

lemma session_stale_errors:
  "session tagged_uuids 0 stale_errors_actions initial_component =
     \<lparr>state = initial_state
        (nationality := JString ''Dutch'', schoolName := JString ''Acme University'',
         uniqueId := JString ''id-a''),
      errors = [schoolName \<mapsto> ''School name is required''],
      emitted = [initial_state
        (nationality := JString ''Dutch'', schoolName := JString ''Acme University'',
         uniqueId := JString ''id-a'')]\<rparr>"
proof -
  let ?d1 = "initial_state(nationality := JString ''Dutch'', uniqueId := JString ''id-'')"
  let ?d2 = "?d1(schoolName := JString ''Acme University'', uniqueId := JString ''id-a'')"
  have p1: "parse ?d1 = Inl (ZodError [\<lparr>path0 = schoolName, message = ''School name is required''\<rparr>])"
    by (simp add: parse_def object_issues_def schema_def rating_def initial_state_def)
  have p2: "parse ?d2 = Inr ?d2"
    by (simp add: parse_def object_issues_def schema_def rating_def initial_state_def)
  have e: "reduce_errors [\<lparr>path0 = schoolName, message = ''School name is required''\<rparr>] =
      [schoolName \<mapsto> ''School name is required'']"
    by (simp add: reduce_errors_def)
  have s1: "onSubmit (tagged_uuids 0) (initial_component\<lparr>state := initial_state(nationality := JString ''Dutch'')\<rparr>)
     = (\<lparr>state = ?d1, errors = [schoolName \<mapsto> ''School name is required''], emitted = []\<rparr>, None)"
    using p1 by (simp add: tagged_uuids_def onSubmit_rejected initial_component_def e)
  have s2: "onSubmit (tagged_uuids 1)
       \<lparr>state = ?d1(schoolName := JString ''Acme University''),
        errors = [schoolName \<mapsto> ''School name is required''], emitted = []\<rparr>
     = (\<lparr>state = ?d2, errors = [schoolName \<mapsto> ''School name is required''], emitted = [?d2]\<rparr>, None)"
    using p2 by (simp add: tagged_uuids_def onSubmit_accepted)
  have eq: "?d2 = initial_state
        (nationality := JString ''Dutch'', schoolName := JString ''Acme University'',
         uniqueId := JString ''id-a'')"
    by (rule ext) simp
  show ?thesis
    using s1 s2 by (simp add: stale_errors_actions_def initial_component_def eq)
qed

text \<open>
  C3. The handler writes the error map in its \<^verbatim>\<open>catch\<close> block only. In the session
  below the first submission fails for the empty \<open>schoolName\<close>; the field is then
  filled in and the second submission succeeds and emits its record, and the error
  map still holds the entry of the first attempt.
\<close>

theorem successful_submit_keeps_stale_errors:
  "length (emitted (session tagged_uuids 0 stale_errors_actions initial_component)) = 1 \<and>
   errors (session tagged_uuids 0 stale_errors_actions initial_component) schoolName =
     Some ''School name is required''"
  by (simp add: session_stale_errors)

section \<open>Identifiers\<close>

lemma onSubmit_emitted_cases:
  "emitted (fst (onSubmit u c)) = emitted c \<or>
   (\<exists>token. u = Inr token \<and>
      emitted (fst (onSubmit u c)) = emitted c @ [(state c)(uniqueId := JString token)])"
proof (cases u)
  case (Inl e)
  then show ?thesis
    by (cases e) (simp_all add: onSubmit_def try_block_def catch_block_def)
next
  case (Inr token)
  show ?thesis
  proof (cases "(state c)(uniqueId := JString token)" rule: parse_cases)
    case accepted
    then show ?thesis by (simp add: Inr onSubmit_accepted)
  next
    case rejected
    then show ?thesis by (simp add: Inr onSubmit_rejected)
  qed
qed

lemma identifiers_fresh_mono:
  assumes "identifiers_fresh uuids n c" and "n \<le> m" and "emitted c' = emitted c"
  shows "identifiers_fresh uuids m c'"
proof -
  have "\<exists>i < m. \<exists>s. s \<noteq> [] \<and> uuids i = Inr s \<and> r uniqueId = JString s"
    if "r \<in> set (emitted c)" for r
  proof -
    from assms(1) that obtain i s where "i < n" "s \<noteq> []" "uuids i = Inr s" "r uniqueId = JString s"
      unfolding identifiers_fresh_def by blast
    moreover from \<open>i < n\<close> \<open>n \<le> m\<close> have "i < m" by simp
    ultimately show ?thesis by blast
  qed
  moreover have "distinct (map (\<lambda>r. r uniqueId) (emitted c))"
    using assms(1) by (simp add: identifiers_fresh_def)
  ultimately show ?thesis
    by (simp add: identifiers_fresh_def assms(3))
qed

lemma identifiers_fresh_onSubmit:
  assumes differ: "\<forall>i j s. uuids i = Inr s \<and> uuids j = Inr s \<longrightarrow> i = j"
    and nonempty: "\<forall>i. uuids i \<noteq> Inr []"
    and fresh: "identifiers_fresh uuids n c"
  shows "identifiers_fresh uuids (Suc n) (fst (onSubmit (uuids n) c))"
proof -
  let ?c' = "fst (onSubmit (uuids n) c)"
  have old: "identifiers_fresh uuids (Suc n) c"
    using fresh by (rule identifiers_fresh_mono) simp_all
  consider (same) "emitted ?c' = emitted c"
    | (more) token where "uuids n = Inr token"
        "emitted ?c' = emitted c @ [(state c)(uniqueId := JString token)]"
    using onSubmit_emitted_cases [of "uuids n" c] by blast
  then show ?thesis
  proof cases
    case same
    with old show ?thesis
      by (rule identifiers_fresh_mono [OF _ le_refl])
  next
    case more
    let ?r = "(state c)(uniqueId := JString token)"
    have new: "JString token \<notin> set (map (\<lambda>r. r uniqueId) (emitted c))"
    proof
      assume "JString token \<in> set (map (\<lambda>r. r uniqueId) (emitted c))"
      then obtain r where r: "r \<in> set (emitted c)" "r uniqueId = JString token"
        by auto
      from fresh r(1) obtain i s where i: "i < n" "uuids i = Inr s" "r uniqueId = JString s"
        unfolding identifiers_fresh_def by blast
      from i(3) r(2) have "s = token" by simp
      with differ i(2) more(1) have "i = n" by blast
      with i(1) show False by simp
    qed
    have "token \<noteq> []"
      using nonempty more(1) by auto
    then have last: "\<exists>i < Suc n. \<exists>s. s \<noteq> [] \<and> uuids i = Inr s \<and> ?r uniqueId = JString s"
      using more(1) by auto
    have dist: "distinct (map (\<lambda>r. r uniqueId) (emitted c))"
      using fresh by (simp add: identifiers_fresh_def)
    have all: "\<forall>r \<in> set (emitted c). \<exists>i < Suc n. \<exists>s. s \<noteq> [] \<and> uuids i = Inr s \<and> r uniqueId = JString s"
      using old by (simp add: identifiers_fresh_def)
    show ?thesis
      unfolding identifiers_fresh_def more(2)
      using new dist all last by simp
  qed
qed

lemma identifiers_fresh_session:
  assumes "\<forall>i j s. uuids i = Inr s \<and> uuids j = Inr s \<longrightarrow> i = j"
    and "\<forall>i. uuids i \<noteq> Inr []"
    and "identifiers_fresh uuids n c"
  shows "\<exists>m. identifiers_fresh uuids m (session uuids n acts c)"
  using assms(3)
proof (induction acts arbitrary: n c)
  case Nil
  then show ?case by auto
next
  case (Cons a acts)
  show ?case
  proof (cases a)
    case (Edit k v)
    have "identifiers_fresh uuids n (c\<lparr>state := (state c)(k := v)\<rparr>)"
      using Cons.prems by (simp add: identifiers_fresh_def)
    then show ?thesis
      using Cons.IH by (simp add: Edit)
  next
    case (SetRating k v)
    have "identifiers_fresh uuids n (setRating k v c)"
      using Cons.prems by (simp add: identifiers_fresh_def setRating_def)
    then show ?thesis
      using Cons.IH by (simp add: SetRating)
  next
    case Submit
    have "identifiers_fresh uuids (Suc n) (fst (onSubmit (uuids n) c))"
      using Cons.prems by (rule identifiers_fresh_onSubmit [OF assms(1,2)])
    then show ?thesis
      using Cons.IH by (simp add: Submit)
  qed
qed

lemma identifiers_fresh_initial: "identifiers_fresh uuids 0 initial_component"
  by (simp add: identifiers_fresh_def initial_component_def)

text \<open>
  C5. A call of \<open>onSubmit\<close> in which the generator returns a token writes the
  token to \<open>uniqueId\<close> of the draft before it validates, whether validation then
  succeeds or fails, and on success the emitted record carries the token. When the
  generator never returns the same token twice, the records emitted in a session
  have identifiers that are non-empty and different from each other. The tokens
  are those of \<^verbatim>\<open>uuidv4\<close>, texts of 36 characters.
\<close>

theorem submit_assigns_fresh_identifier:
  assumes "tokens_differ uuids" and "uuid_tokens uuids"
  shows "state (fst (onSubmit (Inr token) c)) uniqueId = JString token \<and>
    (\<forall>v. parse ((state c)(uniqueId := JString token)) = Inr v \<longrightarrow>
        emitted (fst (onSubmit (Inr token) c)) = emitted c @ [v] \<and> v uniqueId = JString token) \<and>
    distinct (map (\<lambda>r. r uniqueId) (emitted (session uuids 0 acts initial_component))) \<and>
    (\<forall>r \<in> set (emitted (session uuids 0 acts initial_component)).
        \<exists>s. r uniqueId = JString s \<and> s \<noteq> [])"
proof -
  have assigned: "state (fst (onSubmit (Inr token) c)) uniqueId = JString token"
    by (cases "(state c)(uniqueId := JString token)" rule: parse_cases)
       (simp_all add: onSubmit_accepted onSubmit_rejected)
  have carried: "emitted (fst (onSubmit (Inr token) c)) = emitted c @ [v] \<and> v uniqueId = JString token"
    if "parse ((state c)(uniqueId := JString token)) = Inr v" for v
    using that parse_Inr [OF that] by (simp add: onSubmit_accepted)
  have differ: "\<forall>i j s. uuids i = Inr s \<and> uuids j = Inr s \<longrightarrow> i = j"
    using assms(1) by (simp add: tokens_differ_def)
  have nonempty: "\<forall>i. uuids i \<noteq> Inr []"
  proof
    fix i
    show "uuids i \<noteq> Inr []"
    proof
      assume "uuids i = Inr []"
      with assms(2) have "length ([] :: string) = 36"
        unfolding uuid_tokens_def by blast
      then show False by simp
    qed
  qed
  obtain m where "identifiers_fresh uuids m (session uuids 0 acts initial_component)"
    using identifiers_fresh_session [OF differ nonempty identifiers_fresh_initial] by blast
  then have "distinct (map (\<lambda>r. r uniqueId) (emitted (session uuids 0 acts initial_component)))"
    and "\<forall>r \<in> set (emitted (session uuids 0 acts initial_component)).
        \<exists>s. r uniqueId = JString s \<and> s \<noteq> []"
    unfolding identifiers_fresh_def by blast+
  with assigned carried show ?thesis
    by blast
qed

lemma session_v4_two_submissions:
  "map (\<lambda>r. r uniqueId) (emitted (session v4_uuids 0 two_submissions initial_component)) =
     [JString ''1b9d6bcd-bbfd-4b2d-9b5d-ab8dfbbd4bed'',
      JString ''9b1deb4d-3b7d-4bad-9bdd-2b0d7b3dcb6d'']"
proof -
  let ?t0 = "''1b9d6bcd-bbfd-4b2d-9b5d-ab8dfbbd4bed''"
  let ?t1 = "''9b1deb4d-3b7d-4bad-9bdd-2b0d7b3dcb6d''"
  let ?c0 = "\<lparr>state = acme_draft, errors = Map.empty, emitted = []\<rparr>"
  let ?d1 = "acme_draft(uniqueId := JString ?t0)"
  let ?c1 = "\<lparr>state = ?d1, errors = Map.empty, emitted = [?d1]\<rparr>"
  let ?d2 = "?d1(safety := JNumber (JFinite 4), uniqueId := JString ?t1)"
  have "valid_draft ?d1"
    by (simp add: valid_draft_def acme_draft_def initial_state_def rating_fields_def
        text_fields_def nonempty_string_def is_boolean_def rating_in_range_def optional_sex_def
        optional_string_def)
  then have p1: "parse ((state ?c0)(uniqueId := JString ?t0)) = Inr ?d1"
    by (simp add: parse_accepts_iff)
  have "valid_draft ?d2"
    by (simp add: valid_draft_def acme_draft_def initial_state_def rating_fields_def
        text_fields_def nonempty_string_def is_boolean_def rating_in_range_def optional_sex_def
        optional_string_def)
  then have p2: "parse ((state (setRating safety (JFinite 4) ?c1))(uniqueId := JString ?t1)) = Inr ?d2"
    by (simp add: parse_accepts_iff setRating_def)
  have t0: "v4_uuids 0 = Inr ?t0" and t1: "v4_uuids (Suc 0) = Inr ?t1"
    by (simp_all add: v4_uuids_def)
  have s1: "fst (onSubmit (v4_uuids 0) ?c0) = ?c1"
    unfolding t0 onSubmit_accepted [OF p1] by simp
  have s2: "emitted (fst (onSubmit (v4_uuids (Suc 0)) (setRating safety (JFinite 4) ?c1))) = [?d1, ?d2]"
    unfolding t1 onSubmit_accepted [OF p2] by (simp add: setRating_def)
  have "session v4_uuids 0 two_submissions initial_component =
      fst (onSubmit (v4_uuids (Suc 0)) (setRating safety (JFinite 4) (fst (onSubmit (v4_uuids 0) ?c0))))"
    by (simp add: two_submissions_def initial_component_def acme_draft_def)
  then show ?thesis
    unfolding s1 using s2 by simp
qed

theorem submit_assigns_fresh_identifier_witness:
  "tokens_differ v4_uuids \<and> uuid_tokens v4_uuids \<and>
   state (fst (onSubmit (Inr ''1b9d6bcd-bbfd-4b2d-9b5d-ab8dfbbd4bed'') initial_component)) uniqueId =
     JString ''1b9d6bcd-bbfd-4b2d-9b5d-ab8dfbbd4bed'' \<and>
   map (\<lambda>r. r uniqueId) (emitted (session v4_uuids 0 two_submissions initial_component)) =
     [JString ''1b9d6bcd-bbfd-4b2d-9b5d-ab8dfbbd4bed'',
      JString ''9b1deb4d-3b7d-4bad-9bdd-2b0d7b3dcb6d''] \<and>
   distinct (map (\<lambda>r. r uniqueId) (emitted (session v4_uuids 0 two_submissions initial_component)))"
proof -
  have differ: "tokens_differ v4_uuids"
    by (auto simp: tokens_differ_def v4_uuids_def split: nat.splits)
  have format: "uuid_tokens v4_uuids"
    by (auto simp: uuid_tokens_def v4_uuids_def split: nat.splits)
  show ?thesis
    using differ format session_v4_two_submissions
      submit_assigns_fresh_identifier [OF differ format,
        of "''1b9d6bcd-bbfd-4b2d-9b5d-ab8dfbbd4bed''" initial_component two_submissions]
    by simp
qed

section \<open>Fields that the schema does not require\<close>

lemma valid_draft_submitted:
  assumes "valid_draft ((state c)(uniqueId := JString token))"
  shows "onSubmit (Inr token) c =
     (c\<lparr>state := (state c)(uniqueId := JString token),
        emitted := emitted c @ [(state c)(uniqueId := JString token)]\<rparr>, None)"
  using assms by (simp add: onSubmit_accepted parse_accepts_iff [symmetric])

text \<open>
  C8. A draft with \<open>currentStudent = true\<close> whose \<open>yearOfStudy\<close> and
  \<open>nameOfStudy\<close> are empty, and whose other fields are valid, passes validation
  and is emitted. The same holds for \<open>currentStudent = false\<close> and for fields that
  are absent instead of empty: the schema never requires the two fields.
\<close>

theorem study_fields_never_required:
  assumes "nonempty_string (d schoolName)" and "nonempty_string (d nationality)"
    and "ratings_and_options_valid d"
    and "year \<in> {JString [], JUndefined}" and "name \<in> {JString [], JUndefined}"
  shows "onSubmit (Inr token)
           \<lparr>state = d(currentStudent := JBoolean b, yearOfStudy := year, nameOfStudy := name),
            errors = er, emitted = ev\<rparr> =
         (\<lparr>state = d(currentStudent := JBoolean b, yearOfStudy := year, nameOfStudy := name,
                      uniqueId := JString token),
           errors = er,
           emitted = ev @ [d(currentStudent := JBoolean b, yearOfStudy := year,
                             nameOfStudy := name, uniqueId := JString token)]\<rparr>, None)"
proof -
  let ?d = "d(currentStudent := JBoolean b, yearOfStudy := year, nameOfStudy := name,
              uniqueId := JString token)"
  have "optional_string year" "optional_string name"
    using assms(4,5) by (auto simp: optional_string_def)
  moreover have "\<forall>k \<in> set rating_fields. rating_in_range (d k)" "optional_sex (d sex)"
    "optional_string (d additionalComments)"
    using assms(3) by (simp_all add: ratings_and_options_valid_def)
  ultimately have "valid_draft ?d"
    using assms(1,2)
    by (simp add: valid_draft_def rating_fields_def text_fields_def is_boolean_def
        optional_string_def)
  then show ?thesis
    using valid_draft_submitted
      [of "\<lparr>state = d(currentStudent := JBoolean b, yearOfStudy := year, nameOfStudy := name),
            errors = er, emitted = ev\<rparr>" token]
    by simp
qed

theorem study_fields_never_required_witness:
  "nonempty_string (acme_draft schoolName) \<and> nonempty_string (acme_draft nationality) \<and>
   ratings_and_options_valid acme_draft \<and>
   onSubmit (Inr ''id-0'')
     \<lparr>state = acme_draft(currentStudent := JBoolean True, yearOfStudy := JString [],
                         nameOfStudy := JString []),
      errors = Map.empty, emitted = []\<rparr> =
   (\<lparr>state = acme_draft(currentStudent := JBoolean True, yearOfStudy := JString [],
                         nameOfStudy := JString [], uniqueId := JString ''id-0''),
     errors = Map.empty,
     emitted = [acme_draft(currentStudent := JBoolean True, yearOfStudy := JString [],
                           nameOfStudy := JString [], uniqueId := JString ''id-0'')]\<rparr>, None)"
proof -
  have 1: "nonempty_string (acme_draft schoolName)" and 2: "nonempty_string (acme_draft nationality)"
    by (simp_all add: acme_draft_def nonempty_string_def)
  have 3: "ratings_and_options_valid acme_draft"
    by (simp add: ratings_and_options_valid_def acme_draft_def initial_state_def rating_fields_def
        rating_in_range_def optional_sex_def optional_string_def)
  show ?thesis
    using 1 2 3
      study_fields_never_required [OF 1 2 3, of "JString []" "JString []" "''id-0''" True Map.empty "[]"]
    by simp
qed

section \<open>Required strings\<close>

text \<open>
  C10. The check of a required string is \<^verbatim>\<open>length < 1\<close> and nothing else: a string
  passes exactly when its length is greater than zero. So a draft whose
  \<open>schoolName\<close> and \<open>nationality\<close> are non-empty strings of whitespace only, and
  whose other fields are valid, is accepted and emitted as it is; nothing is trimmed.
\<close>

theorem whitespace_names_accepted:
  assumes "s1 \<noteq> []" and "whitespace_only s1" and "s2 \<noteq> []" and "whitespace_only s2"
    and "is_boolean (d currentStudent)"
    and "optional_string (d yearOfStudy)" and "optional_string (d nameOfStudy)"
    and "ratings_and_options_valid d"
  shows "(parse_type (ZString [StrMin 1 msg]) (JString s) = [] \<longleftrightarrow> 0 < length s) \<and>
         onSubmit (Inr token)
           \<lparr>state = d(schoolName := JString s1, nationality := JString s2),
            errors = er, emitted = ev\<rparr> =
         (\<lparr>state = d(schoolName := JString s1, nationality := JString s2,
                      uniqueId := JString token),
           errors = er,
           emitted = ev @ [d(schoolName := JString s1, nationality := JString s2,
                             uniqueId := JString token)]\<rparr>, None)"
proof -
  let ?d = "d(schoolName := JString s1, nationality := JString s2, uniqueId := JString token)"
  have "\<forall>k \<in> set rating_fields. rating_in_range (d k)" "optional_sex (d sex)"
    "optional_string (d additionalComments)"
    using assms(8) by (simp_all add: ratings_and_options_valid_def)
  then have "valid_draft ?d"
    using assms(1,3,5,6,7)
    by (simp add: valid_draft_def rating_fields_def text_fields_def nonempty_string_def
        optional_string_def)
  then have "onSubmit (Inr token)
           \<lparr>state = d(schoolName := JString s1, nationality := JString s2),
            errors = er, emitted = ev\<rparr> =
         (\<lparr>state = ?d, errors = er, emitted = ev @ [?d]\<rparr>, None)"
    using valid_draft_submitted
      [of "\<lparr>state = d(schoolName := JString s1, nationality := JString s2),
            errors = er, emitted = ev\<rparr>" token]
    by simp
  moreover have "parse_type (ZString [StrMin 1 msg]) (JString s) = [] \<longleftrightarrow> 0 < length s"
    by simp
  ultimately show ?thesis
    by blast
qed

theorem whitespace_names_accepted_witness:
  "'' '' \<noteq> [] \<and> whitespace_only '' '' \<and> is_boolean (initial_state currentStudent) \<and>
   optional_string (initial_state yearOfStudy) \<and> optional_string (initial_state nameOfStudy) \<and>
   ratings_and_options_valid initial_state \<and>
   onSubmit (Inr ''id-0'')
     \<lparr>state = initial_state(schoolName := JString '' '', nationality := JString '' ''),
      errors = Map.empty, emitted = []\<rparr> =
   (\<lparr>state = initial_state(schoolName := JString '' '', nationality := JString '' '',
                            uniqueId := JString ''id-0''),
     errors = Map.empty,
     emitted = [initial_state(schoolName := JString '' '', nationality := JString '' '',
                              uniqueId := JString ''id-0'')]\<rparr>, None)"
proof -
  have 1: "'' '' \<noteq> []" and 2: "whitespace_only '' ''"
    by (simp_all add: whitespace_only_def)
  have 3: "is_boolean (initial_state currentStudent)"
    and 4: "optional_string (initial_state yearOfStudy)"
    and 5: "optional_string (initial_state nameOfStudy)"
    by (simp_all add: initial_state_def is_boolean_def optional_string_def)
  have 6: "ratings_and_options_valid initial_state"
    by (simp add: ratings_and_options_valid_def initial_state_def rating_fields_def
        rating_in_range_def optional_sex_def optional_string_def)
  show ?thesis
    using 1 2 3 4 5 6
      whitespace_names_accepted [OF 1 2 1 2 3 4 5 6,
        where token = "''id-0''" and er = Map.empty and ev = "[]"]
    by simp
qed

section \<open>The institution names\<close>

text \<open>
  C9. \<open>schoolNames\<close> returns one name per record of the dataset, in the order of
  the dataset: the result has the length of the dataset and its i-th element is
  the \<^verbatim>\<open>INSTELLINGSNAAM\<close> of the i-th record. Nothing is filtered or removed, and
  the result depends on the dataset alone.
\<close>

theorem schoolNames_pointwise:
  "length (schoolNames schools) = length schools \<and>
   (\<forall>i < length schools. schoolNames schools ! i = INSTELLINGSNAAM (schools ! i))"
  by (simp add: schoolNames_def)

theorem schoolNames_pointwise_witness:
  "(2::nat) < length example_schools \<and>
   length (schoolNames example_schools) = 3 \<and>
   schoolNames example_schools ! 2 = INSTELLINGSNAAM (example_schools ! 2) \<and>
   schoolNames example_schools ! 2 = JString ''Hogeschool A''"
  using schoolNames_pointwise [of example_schools]
  by (simp add: example_schools_def)

end
